theory Spec2Isabelle
  imports Main "HOL-Library.Word"
begin

section \<open>NoteVault: values shared by the modules\<close>

text \<open>
  A Python \<open>str\<close> is a sequence of Unicode code points, and \<open>len\<close> counts
  code points: it is modelled as a list of natural numbers. \<open>bytes\<close> is a list of octets.
  Literals of the source are written as HOL string literals and converted by \<open>lit\<close>.
\<close>

type_synonym str = "nat list"

type_synonym bytes = "8 word list"

definition lit :: "string \<Rightarrow> str" where
  "lit s = map of_char s"

text \<open>
  Every exception the modelled code can raise, and \<open>sys.exit\<close>, is a value: a function
  that can fail returns \<open>py_error + 'a\<close>, with \<open>Inl\<close> for the failure.
\<close>

datatype py_error =
    SystemExit int
  | UnicodeEncodeError
  | UnicodeDecodeError
  | InvalidKey
  | InvalidToken
  | IntegrityError
  | OperationalError
  | AttributeError
  | TypeError
  | FileNotFoundError

definition bind :: "py_error + 'a \<Rightarrow> ('a \<Rightarrow> py_error + 'b) \<Rightarrow> py_error + 'b" where
  "bind m f = (case m of Inl e \<Rightarrow> Inl e | Inr x \<Rightarrow> f x)"

subsection \<open>The built-in codec: \<open>str.encode("utf-8")\<close> and \<open>bytes.decode("utf-8")\<close>\<close>

text \<open>
  The strict UTF-8 codec of Python: encoding raises \<open>UnicodeEncodeError\<close> on a lone
  surrogate (U+D800..U+DFFF); decoding raises \<open>UnicodeDecodeError\<close> on a stray or missing
  continuation byte, an overlong form, an encoded surrogate and anything above U+10FFFF.
\<close>

definition encode_codepoint :: "nat \<Rightarrow> nat list option" where
  "encode_codepoint c =
     (if c < 0x80 then Some [c]
      else if c < 0x800 then Some [0xC0 + c div 64, 0x80 + c mod 64]
      else if c < 0x10000 then
        (if 0xD800 \<le> c \<and> c \<le> 0xDFFF then None
         else Some [0xE0 + c div 4096, 0x80 + (c div 64) mod 64, 0x80 + c mod 64])
      else if c < 0x110000 then
        Some [0xF0 + c div 262144, 0x80 + (c div 4096) mod 64,
              0x80 + (c div 64) mod 64, 0x80 + c mod 64]
      else None)"

fun encode_codepoints :: "nat list \<Rightarrow> nat list option" where
  "encode_codepoints [] = Some []"
| "encode_codepoints (c # cs) =
     (case encode_codepoint c of
        None \<Rightarrow> None
      | Some bs \<Rightarrow> (case encode_codepoints cs of None \<Rightarrow> None | Some r \<Rightarrow> Some (bs @ r)))"

definition str_encode :: "str \<Rightarrow> py_error + bytes" where
  "str_encode s =
     (case encode_codepoints s of
        None \<Rightarrow> Inl UnicodeEncodeError
      | Some ns \<Rightarrow> Inr (map of_nat ns))"

definition continuation :: "nat \<Rightarrow> bool" where
  "continuation b = (0x80 \<le> b \<and> b < 0xC0)"

fun decode_octets :: "nat list \<Rightarrow> nat list option" where
  "decode_octets [] = Some []"
| "decode_octets (b0 # bs) =
     (if b0 < 0x80 then map_option ((#) b0) (decode_octets bs)
      else if 0xC2 \<le> b0 \<and> b0 < 0xE0 then
        (case bs of
           b1 # r \<Rightarrow>
             if continuation b1
             then map_option ((#) ((b0 - 0xC0) * 64 + (b1 - 0x80))) (decode_octets r)
             else None
         | _ \<Rightarrow> None)
      else if 0xE0 \<le> b0 \<and> b0 < 0xF0 then
        (case bs of
           b1 # b2 # r \<Rightarrow>
             (let c = (b0 - 0xE0) * 4096 + (b1 - 0x80) * 64 + (b2 - 0x80)
              in if continuation b1 \<and> continuation b2 \<and> 0x800 \<le> c
                    \<and> \<not> (0xD800 \<le> c \<and> c \<le> 0xDFFF)
                 then map_option ((#) c) (decode_octets r)
                 else None)
         | _ \<Rightarrow> None)
      else if 0xF0 \<le> b0 \<and> b0 < 0xF5 then
        (case bs of
           b1 # b2 # b3 # r \<Rightarrow>
             (let c = (b0 - 0xF0) * 262144 + (b1 - 0x80) * 4096 + (b2 - 0x80) * 64 + (b3 - 0x80)
              in if continuation b1 \<and> continuation b2 \<and> continuation b3
                    \<and> 0x10000 \<le> c \<and> c < 0x110000
                 then map_option ((#) c) (decode_octets r)
                 else None)
         | _ \<Rightarrow> None)
      else None)"

definition bytes_decode :: "bytes \<Rightarrow> py_error + str" where
  "bytes_decode b =
     (case decode_octets (map unat b) of
        None \<Rightarrow> Inl UnicodeDecodeError
      | Some s \<Rightarrow> Inr s)"

section \<open>password.py\<close>

definition ascii_letters :: str where
  "ascii_letters = lit ''abcdefghijklmnopqrstuvwxyzABCDEFGHIJKLMNOPQRSTUVWXYZ''"

definition digits :: str where
  "digits = lit ''0123456789''"

text \<open>\<open>string.punctuation\<close>: the 32 ASCII punctuation characters, in the order of the library.\<close>

definition punctuation :: str where
  "punctuation =
     lit (''!'' @ [CHR 0x22] @ ''#$%&'' @ [CHR 0x27] @ ''()*+,-./:;<=>?@['' @ [CHR 0x5C]
          @ '']^_'' @ [CHR 0x60] @ ''{|}~'')"

definition VALID_CHARS :: "nat set" where
  "VALID_CHARS = set (ascii_letters @ digits @ punctuation)"

definition password_meets_requirements :: "str \<Rightarrow> bool" where
  "password_meets_requirements password =
     (if length password < 8 \<or> length password > 32 then False
      else if (\<exists>c \<in> set password. c \<notin> VALID_CHARS) then False
      else True)"

subsection \<open>The \<open>cryptography\<close> package\<close>

text \<open>
  \<open>Scrypt\<close> and \<open>Fernet\<close> are third-party code. They enter the model as parameters:
  \<^item> \<open>Scrypt_derive salt key_material\<close> is \<open>Scrypt(salt, length=32, n=2**14, r=8, p=1).derive(key_material)\<close>,
    a deterministic function whose result has 32 bytes;
  \<^item> \<open>Fernet_encrypt key (iv, now) data\<close> is \<open>Fernet(urlsafe_b64encode(key)).encrypt(data)\<close>, where
    \<open>iv\<close> is what \<open>os.urandom(16)\<close> returns and \<open>now\<close> what \<open>time.time()\<close> returns during the call;
  \<^item> \<open>Fernet_decrypt key token\<close> is \<open>Fernet(urlsafe_b64encode(key)).decrypt(token)\<close>, with
    \<open>None\<close> where the library raises \<open>InvalidToken\<close>.
\<close>

type_synonym entropy = "bytes \<times> nat"

record cryptography =
  Scrypt_derive :: "bytes \<Rightarrow> bytes \<Rightarrow> bytes"
  Fernet_encrypt :: "bytes \<Rightarrow> entropy \<Rightarrow> bytes \<Rightarrow> bytes"
  Fernet_decrypt :: "bytes \<Rightarrow> bytes \<Rightarrow> bytes option"

text \<open>\<open>Scrypt.verify\<close> derives the key again and raises \<open>InvalidKey\<close> unless it equals the expected one.\<close>

definition Scrypt_verify :: "cryptography \<Rightarrow> bytes \<Rightarrow> bytes \<Rightarrow> bytes \<Rightarrow> py_error + unit" where
  "Scrypt_verify L salt key_material expected_key =
     (if Scrypt_derive L salt key_material = expected_key then Inr () else Inl InvalidKey)"

definition verify_password :: "cryptography \<Rightarrow> str \<Rightarrow> str \<Rightarrow> bytes \<Rightarrow> py_error + bool" where
  "verify_password L password salt key =
     bind (str_encode salt) (\<lambda>salt_bytes.
     bind (str_encode password) (\<lambda>password_bytes.
       case Scrypt_verify L salt_bytes password_bytes key of
         Inl InvalidKey \<Rightarrow> Inr False
       | Inl e \<Rightarrow> Inl e
       | Inr _ \<Rightarrow> Inr True))"

definition derive_key :: "cryptography \<Rightarrow> str \<Rightarrow> str \<Rightarrow> py_error + bytes" where
  "derive_key L password salt =
     bind (str_encode salt) (\<lambda>salt_bytes.
     bind (str_encode password) (\<lambda>password_bytes.
       Inr (Scrypt_derive L salt_bytes password_bytes)))"

text \<open>
  \<open>Encoder\<close>: the field \<open>fernet\<close> is \<open>self._encoder\<close>, the Fernet object, which is
  determined by its key \<open>prep_pwd\<close>.
\<close>

record Encoder =
  fernet :: bytes
  password_hash :: bytes

definition Encoder_init :: "cryptography \<Rightarrow> str \<Rightarrow> str \<Rightarrow> py_error + Encoder" where
  "Encoder_init L password salt =
     bind (derive_key L password salt) (\<lambda>prep_pwd.
       Inr \<lparr>fernet = prep_pwd, password_hash = prep_pwd\<rparr>)"

definition Encoder_encode :: "cryptography \<Rightarrow> Encoder \<Rightarrow> entropy \<Rightarrow> str \<Rightarrow> py_error + str" where
  "Encoder_encode L self rnd data =
     bind (str_encode data) (\<lambda>data_bytes.
       bytes_decode (Fernet_encrypt L (fernet self) rnd data_bytes))"

definition Encoder_decode :: "cryptography \<Rightarrow> Encoder \<Rightarrow> str \<Rightarrow> py_error + str" where
  "Encoder_decode L self data =
     bind (str_encode data) (\<lambda>data_bytes.
       case Fernet_decrypt L (fernet self) data_bytes of
         None \<Rightarrow> Inl InvalidToken
       | Some decrypted \<Rightarrow> bytes_decode decrypted)"

section \<open>database.py\<close>

text \<open>
  The table \<open>records(name TEXT PRIMARY KEY, body TEXT)\<close> is the list of its rows.
  \<open>conn_open\<close> is false once \<open>close\<close> has set the connection and the cursor to \<open>None\<close>.
  \<open>sqlite3\<close> binds a \<open>str\<close> parameter as UTF-8 before the statement runs, and raises
  \<open>UnicodeEncodeError\<close> when the \<open>str\<close> cannot be encoded (a lone surrogate).
\<close>

type_synonym row = "str \<times> str"

record Database =
  records :: "row list"
  conn_open :: bool

definition close :: "Database \<Rightarrow> py_error + Database" where
  "close self =
     (if conn_open self then Inr (self\<lparr>conn_open := False\<rparr>) else Inl AttributeError)"

text \<open>\<open>SELECT body FROM records WHERE name = (?)\<close>, then \<open>fetchone\<close> and \<open>res[0]\<close>.\<close>

definition fetch_record :: "Database \<Rightarrow> str \<Rightarrow> py_error + str option" where
  "fetch_record self title =
     (if \<not> conn_open self then Inl AttributeError
      else bind (str_encode title) (\<lambda>bound_title.
        case find (\<lambda>r. fst r = title) (records self) of
          None \<Rightarrow> Inr None
        | Some res \<Rightarrow> Inr (Some (snd res))))"



section \<open>config.py\<close>

text \<open>
  The file system, as far as the application looks at it: a directory holds at most the
  three files \<open>config.json\<close>, \<open>hash\<close> and \<open>db.sqlite\<close>. A \<open>config.json\<close> that
  \<open>json.load\<close> rejects, or whose content is not a JSON object, is \<open>Malformed\<close>; one that
  holds a JSON object which the pydantic validation rejects is \<open>Invalid\<close>; a \<open>hash\<close>
  file whose reading raises is \<open>Unreadable\<close>.
\<close>

type_synonym path = string

datatype cfg_content = Malformed | Invalid | Cfg path str

datatype hash_content = Unreadable | Raw bytes

record vault_dir =
  config_file :: "cfg_content option"
  hash_file :: "hash_content option"
  db_file :: "row list option"

type_synonym filesystem = "path \<Rightarrow> vault_dir option"

text \<open>\<open>AppConfig\<close>: \<open>stored_hash\<close> is the private attribute \<open>_password_hash\<close>.\<close>

record AppConfig =
  storage_pth :: path
  password_salt :: str
  stored_hash :: "bytes option"

definition model_post_init :: "filesystem \<Rightarrow> path \<Rightarrow> str \<Rightarrow> py_error + AppConfig" where
  "model_post_init fs pth salt =
     (case (case fs pth of None \<Rightarrow> None | Some d \<Rightarrow> hash_file d) of
        Some (Raw b) \<Rightarrow> Inr \<lparr>storage_pth = pth, password_salt = salt, stored_hash = Some b\<rparr>
      | Some Unreadable \<Rightarrow> Inl (SystemExit 1)
      | None \<Rightarrow> Inr \<lparr>storage_pth = pth, password_salt = salt, stored_hash = None\<rparr>)"

text \<open>The getter of the property \<open>password_hash\<close>: \<open>None\<close> and \<open>b""\<close> are both falsy.\<close>

definition get_password_hash :: "AppConfig \<Rightarrow> py_error + bytes" where
  "get_password_hash self =
     (case stored_hash self of
        Some h \<Rightarrow> if h \<noteq> [] then Inr h else Inl (SystemExit 1)
      | None \<Rightarrow> Inl (SystemExit 1))"

definition set_password_hash :: "AppConfig \<Rightarrow> bytes \<Rightarrow> AppConfig" where
  "set_password_hash self pwd_hash = self\<lparr>stored_hash := Some pwd_hash\<rparr>"

text \<open>
  \<open>from_json\<close> reads \<open>config.json\<close> of the directory \<open>dir\<close>. The handler of
  \<open>ValidationError\<close> reads \<open>error.type\<close> of the first error, which is a dictionary: this
  raises \<open>AttributeError\<close> before \<open>sys.exit(1)\<close> is reached. Every other exception,
  a missing file included, ends in \<open>sys.exit(1)\<close>.
\<close>

definition from_json :: "filesystem \<Rightarrow> path \<Rightarrow> py_error + AppConfig" where
  "from_json fs dir =
     (case (case fs dir of None \<Rightarrow> None | Some d \<Rightarrow> config_file d) of
        Some (Cfg pth salt) \<Rightarrow> model_post_init fs pth salt
      | Some Invalid \<Rightarrow> Inl AttributeError
      | Some Malformed \<Rightarrow> Inl (SystemExit 1)
      | None \<Rightarrow> Inl (SystemExit 1))"

definition dump :: "filesystem \<Rightarrow> AppConfig \<Rightarrow> py_error + filesystem" where
  "dump fs self =
     (case fs (storage_pth self) of
        None \<Rightarrow> Inl FileNotFoundError
      | Some d \<Rightarrow>
          (case stored_hash self of
             None \<Rightarrow> Inl TypeError
           | Some h \<Rightarrow>
               Inr (fs(storage_pth self \<mapsto>
                      d\<lparr>config_file := Some (Cfg (storage_pth self) (password_salt self)),
                        hash_file := Some (Raw h)\<rparr>))))"

section \<open>main.py\<close>

datatype AppState =
    HARDRESET
  | CONFIRMHARDRESET
  | CONFIRMHARDRESETFAILED
  | INVALIDNEWPASSWORD
  | EMPTY
  | LOGGEDOFF
  | INVALIDPASSWORD
  | LOGGEDON
  | ADDRECORD
  | FINDRECORD
  | DELETERECORD
  | RECORDFOUND
  | RECORDNOTFOUND
  | CHANGEPASSWORD
  | CHANGEPASSWORDFAILED

fun state_value :: "AppState \<Rightarrow> int" where
  "state_value HARDRESET = -100"
| "state_value CONFIRMHARDRESET = -99"
| "state_value CONFIRMHARDRESETFAILED = -98"
| "state_value INVALIDNEWPASSWORD = -2"
| "state_value EMPTY = -1"
| "state_value LOGGEDOFF = 0"
| "state_value INVALIDPASSWORD = 1"
| "state_value LOGGEDON = 2"
| "state_value ADDRECORD = 3"
| "state_value FINDRECORD = 4"
| "state_value DELETERECORD = 5"
| "state_value RECORDFOUND = 6"
| "state_value RECORDNOTFOUND = 7"
| "state_value CHANGEPASSWORD = 100"
| "state_value CHANGEPASSWORDFAILED = 101"

text \<open>
  \<open>__lt__\<close> compares the values; \<open>functools.total_ordering\<close> derives \<open>>=\<close> as
  \<open>not (a < b)\<close> and \<open><=\<close> as \<open>a < b or a == b\<close>.
\<close>

definition state_lt :: "AppState \<Rightarrow> AppState \<Rightarrow> bool" where
  "state_lt self other = (state_value self < state_value other)"

definition state_ge :: "AppState \<Rightarrow> AppState \<Rightarrow> bool" where
  "state_ge self other = (\<not> state_lt self other)"

definition state_le :: "AppState \<Rightarrow> AppState \<Rightarrow> bool" where
  "state_le self other = (state_lt self other \<or> self = other)"

text \<open>
  The two tests of \<open>frame_commands\<close> on the order of the states: the one that opens the
  menu \<open>Reset..\<close> (change password, delete all data), and the one that selects the views of
  a logged-on user.
\<close>

definition reset_menu_allowed :: "AppState \<Rightarrow> bool" where
  "reset_menu_allowed s = state_ge s LOGGEDON"

definition main_view_selected :: "AppState \<Rightarrow> bool" where
  "main_view_selected s = (state_ge s LOGGEDON \<and> state_le s RECORDNOTFOUND)"

text \<open>
  \<open>App\<close>. The field \<open>disk\<close> is the file system the application reads and writes; the
  window and the renderer are left out.
\<close>

record App =
  encoder :: "Encoder option"
  user_input :: str
  user_input2 :: str
  config :: AppConfig
  state :: AppState
  db :: Database
  disk :: filesystem

definition CONFIGFILE_exists :: "filesystem \<Rightarrow> path \<Rightarrow> bool" where
  "CONFIGFILE_exists fs dir = (case fs dir of None \<Rightarrow> False | Some d \<Rightarrow> config_file d \<noteq> None)"

definition empty_dir :: vault_dir where
  "empty_dir = \<lparr>config_file = None, hash_file = None, db_file = None\<rparr>"

text \<open>
  \<open>Database.__init__\<close>: an existing \<open>db.sqlite\<close> is opened; a missing one is created
  on the disk, with an empty table. \<open>sqlite3.connect\<close> raises \<open>OperationalError\<close> in a
  missing directory. While the connection is open, the rows of the table are those of the
  \<open>Database\<close> value.
\<close>

definition Database_init :: "filesystem \<Rightarrow> path \<Rightarrow> py_error + Database \<times> filesystem" where
  "Database_init fs storage =
     (case fs storage of
        None \<Rightarrow> Inl OperationalError
      | Some d \<Rightarrow>
          (case db_file d of
             Some rs \<Rightarrow> Inr (\<lparr>records = rs, conn_open = True\<rparr>, fs)
           | None \<Rightarrow>
               Inr (\<lparr>records = [], conn_open = True\<rparr>,
                    fs(storage \<mapsto> d\<lparr>db_file := Some []\<rparr>))))"

text \<open>
  \<open>App.__init__\<close>. \<open>custom_dir\<close> is the resolved command-line directory, if one was given;
  \<open>default_dir\<close> is \<open>Path.home() / ".config" / APPNAME\<close>; \<open>new_salt\<close> is what
  \<open>gen_salt()\<close> returns if it is called.
\<close>

definition App_init :: "filesystem \<Rightarrow> path option \<Rightarrow> path \<Rightarrow> str \<Rightarrow> py_error + App" where
  "App_init fs custom_dir default_dir new_salt =
     bind (case custom_dir of
             Some dir \<Rightarrow> if fs dir = None then Inl (SystemExit 1) else Inr (dir, fs)
           | None \<Rightarrow>
               if fs default_dir = None then Inr (default_dir, fs(default_dir \<mapsto> empty_dir))
               else Inr (default_dir, fs))
       (\<lambda>(storage_pth, fs).
     bind (if CONFIGFILE_exists fs storage_pth
           then bind (from_json fs storage_pth) (\<lambda>cfg. Inr (cfg, LOGGEDOFF))
           else bind (model_post_init fs storage_pth new_salt) (\<lambda>cfg. Inr (cfg, EMPTY)))
       (\<lambda>(cfg, st).
     bind (Database_init fs storage_pth) (\<lambda>(database, fs).
       Inr \<lparr>encoder = None, user_input = [], user_input2 = [], config = cfg,
            state = st, db = database, disk = fs\<rparr>)))"

text \<open>
  What the user interface returns to \<open>frame_commands\<close> during one frame: the keys held,
  the menus that are open and the items clicked, the contents of the text fields, the
  button of the window of the current state, the two buttons of the options window, and
  the randomness and time that the two \<open>encode\<close> calls of the frame consume.
\<close>

record frame_input =
  ctrl_q_down :: bool
  main_menu_bar_opened :: bool
  file_menu_opened :: bool
  clicked_quit :: bool
  reset_menu_opened :: bool
  clicked_change_pwd :: bool
  clicked_reset :: bool
  input_text :: str
  input_text_multiline :: str
  button :: bool
  add_btn :: bool
  find_btn :: bool
  rnd1 :: entropy
  rnd2 :: entropy

definition main_menu_bar :: "frame_input \<Rightarrow> App \<Rightarrow> py_error + App" where
  "main_menu_bar ui self =
     (if main_menu_bar_opened ui then
        (if file_menu_opened ui \<and> clicked_quit ui then Inl (SystemExit 0)
         else if reset_menu_allowed (state self) then
           (if reset_menu_opened ui then
              (let self1 = (if clicked_change_pwd ui then self\<lparr>state := CHANGEPASSWORD\<rparr> else self);
                   self2 = (if clicked_reset ui then self1\<lparr>state := CONFIRMHARDRESET\<rparr> else self1)
               in Inr self2)
            else Inr self)
         else Inr self)
      else Inr self)"

definition draw_main_options_menu :: "frame_input \<Rightarrow> App \<Rightarrow> App" where
  "draw_main_options_menu ui self =
     (let self1 = (if add_btn ui then self\<lparr>state := ADDRECORD\<rparr> else self);
          self2 = (if find_btn ui then self1\<lparr>state := FINDRECORD\<rparr> else self1)
      in self2)"

text \<open>The window of state \<open>EMPTY\<close>: "Set new password to begin".\<close>

definition empty_window :: "cryptography \<Rightarrow> frame_input \<Rightarrow> App \<Rightarrow> py_error + App" where
  "empty_window L ui self0 =
     (let self = self0\<lparr>user_input := input_text ui\<rparr>;
          confirm_clicked = button ui
      in if confirm_clicked \<and> length (user_input self) \<noteq> 0 then
           bind (if password_meets_requirements (user_input self) then
                   bind (Encoder_init L (user_input self) (password_salt (config self))) (\<lambda>enc.
                   let cfg = set_password_hash (config self) (password_hash enc)
                   in bind (dump (disk self) cfg) (\<lambda>fs.
                        Inr (self\<lparr>encoder := Some enc, config := cfg, disk := fs,
                                  state := LOGGEDOFF\<rparr>)))
                 else Inr (self\<lparr>state := INVALIDNEWPASSWORD\<rparr>))
             (\<lambda>self. Inr (self\<lparr>user_input := []\<rparr>))
         else Inr self)"

text \<open>The window of state \<open>LOGGEDOFF\<close>: "Welcome to NoteVault!".\<close>

definition loggedoff_window :: "cryptography \<Rightarrow> frame_input \<Rightarrow> App \<Rightarrow> py_error + App" where
  "loggedoff_window L ui self0 =
     (let self = self0\<lparr>user_input := input_text ui\<rparr>;
          confirm_clicked = button ui
      in if confirm_clicked \<and> length (user_input self) \<noteq> 0 then
           bind (get_password_hash (config self)) (\<lambda>key.
           bind (verify_password L (user_input self) (password_salt (config self)) key) (\<lambda>ok.
           bind (if ok then
                   bind (Encoder_init L (user_input self) (password_salt (config self))) (\<lambda>enc.
                     Inr (self\<lparr>encoder := Some enc, state := LOGGEDON\<rparr>))
                 else Inr (self\<lparr>state := INVALIDPASSWORD\<rparr>))
             (\<lambda>self. Inr (self\<lparr>user_input := []\<rparr>))))
         else Inr self)"

text \<open>
  The window of state \<open>ADDRECORD\<close>: "Enter note title and body:". The two
  \<open>encode\<close> calls are those of the f-string handed to \<open>logger.debug\<close>, which Python
  evaluates whatever the log level; the call of \<open>self.db.add_record\<close> is commented out
  in the source.
\<close>

definition addrecord_window :: "cryptography \<Rightarrow> frame_input \<Rightarrow> App \<Rightarrow> py_error + App" where
  "addrecord_window L ui self0 =
     (let self = self0\<lparr>user_input := input_text ui, user_input2 := input_text_multiline ui\<rparr>;
          confirm_clicked = button ui
      in if confirm_clicked \<and> length (user_input self) \<noteq> 0 \<and> length (user_input2 self) \<noteq> 0 then
           (case encoder self of
              None \<Rightarrow> Inl AttributeError
            | Some enc \<Rightarrow>
                bind (Encoder_encode L enc (rnd1 ui) (user_input self)) (\<lambda>logged_title.
                bind (Encoder_encode L enc (rnd2 ui) (user_input2 self)) (\<lambda>logged_body.
                  Inr (self\<lparr>user_input := [], user_input2 := [], state := LOGGEDON\<rparr>))))
         else Inr self)"

text \<open>The chain \<open>if ... elif ...\<close> of \<open>frame_commands\<close> on the current state.\<close>

definition state_window :: "cryptography \<Rightarrow> frame_input \<Rightarrow> App \<Rightarrow> py_error + App" where
  "state_window L ui self =
     (if state self = EMPTY then empty_window L ui self
      else if state self = INVALIDNEWPASSWORD then
        (if button ui then Inr (self\<lparr>state := EMPTY\<rparr>) else Inr self)
      else if state self = LOGGEDOFF then loggedoff_window L ui self
      else if state self = INVALIDPASSWORD then
        (if button ui then Inr (self\<lparr>state := LOGGEDOFF\<rparr>) else Inr self)
      else if main_view_selected (state self) then
        (let self = draw_main_options_menu ui self
         in if state self = ADDRECORD then addrecord_window L ui self
            else Inr self)
      else Inr self)"

definition frame_commands :: "cryptography \<Rightarrow> frame_input \<Rightarrow> App \<Rightarrow> py_error + App" where
  "frame_commands L ui self =
     (if ctrl_q_down ui then Inl (SystemExit 0)
      else bind (main_menu_bar ui self) (state_window L ui))"

text \<open>
  \<open>App.run\<close> calls \<open>frame_commands\<close> once per frame until the window closes: the states
  of the application are those reachable from \<open>App.__init__\<close> by frames that return.
\<close>

inductive reachable :: "cryptography \<Rightarrow> App \<Rightarrow> bool" for L :: cryptography where
  start: "App_init fs custom_dir default_dir new_salt = Inr a \<Longrightarrow> reachable L a"
| frame: "reachable L a \<Longrightarrow> frame_commands L ui a = Inr a' \<Longrightarrow> reachable L a'"

section \<open>Auxiliary definitions for the statements\<close>

text \<open>
  Unicode text: every code point is a scalar value, that is, below U+110000 and not a
  surrogate. A \<open>str\<close> that comes from decoding UTF-8 (the text fields of the user
  interface) is of this kind.
\<close>

definition scalar_value :: "nat \<Rightarrow> bool" where
  "scalar_value c = (c < 0xD800 \<or> (0xDFFF < c \<and> c < 0x110000))"

definition unicode_text :: "str \<Rightarrow> bool" where
  "unicode_text s = list_all scalar_value s"

text \<open>
  A frame in which the user neither quits (Ctrl+Q, File / Quit) nor clicks an item of the
  menu \<open>Reset..\<close>.
\<close>

definition no_menu_action :: "frame_input \<Rightarrow> bool" where
  "no_menu_action ui =
     (\<not> ctrl_q_down ui
      \<and> \<not> (main_menu_bar_opened ui \<and> file_menu_opened ui \<and> clicked_quit ui)
      \<and> \<not> (main_menu_bar_opened ui \<and> reset_menu_opened ui
             \<and> (clicked_change_pwd ui \<or> clicked_reset ui)))"

text \<open>The states the specification calls authenticated.\<close>

definition authenticated :: "AppState \<Rightarrow> bool" where
  "authenticated s =
     (s \<in> {LOGGEDON, ADDRECORD, FINDRECORD, DELETERECORD, RECORDFOUND, RECORDNOTFOUND})"

subsection \<open>A stand-in for the cryptography package, for concrete runs\<close>

text \<open>
  A toy library that meets the functional contract of the real one (decryption inverts
  encryption, tokens are ASCII): the key is the first 32 bytes of the key material, the
  salt and zero padding; a token spends two ASCII bytes on every byte of the data.
\<close>

definition toy_wrap_byte :: "8 word \<Rightarrow> bytes" where
  "toy_wrap_byte b = (if b < 0x80 then [0x30, b] else [0x31, b - 0x80])"

fun toy_unwrap :: "bytes \<Rightarrow> bytes option" where
  "toy_unwrap [] = Some []"
| "toy_unwrap [f] = None"
| "toy_unwrap (f # b # r) =
     (if f = 0x30 then map_option ((#) b) (toy_unwrap r)
      else if f = 0x31 then map_option ((#) (b + 0x80)) (toy_unwrap r)
      else None)"

definition toy_crypto :: cryptography where
  "toy_crypto =
     \<lparr>Scrypt_derive = (\<lambda>salt key_material. take 32 (key_material @ salt @ replicate 32 0)),
      Fernet_encrypt = (\<lambda>key rnd data. concat (map toy_wrap_byte data)),
      Fernet_decrypt = (\<lambda>key token. toy_unwrap token)\<rparr>"

definition no_input :: frame_input where
  "no_input =
     \<lparr>ctrl_q_down = False, main_menu_bar_opened = False, file_menu_opened = False,
      clicked_quit = False, reset_menu_opened = False, clicked_change_pwd = False,
      clicked_reset = False, input_text = [], input_text_multiline = [], button = False,
      add_btn = False, find_btn = False, rnd1 = ([], 0), rnd2 = ([], 0)\<rparr>"

text \<open>Concrete values for the runs: a home directory, a salt, a password, a user action.\<close>

definition home_dir :: path where
  "home_dir = ''/home/user/.config/NoteVault''"

definition sample_salt :: str where
  "sample_salt = lit ''q1w2e3r4t5y6u7i8o9p0aa''"

definition type_and_click :: "str \<Rightarrow> frame_input" where
  "type_and_click s = no_input\<lparr>input_text := s, button := True\<rparr>"

definition fresh_app :: App where
  "fresh_app =
     \<lparr>encoder = None, user_input = [], user_input2 = [],
      config = \<lparr>storage_pth = home_dir, password_salt = sample_salt, stored_hash = None\<rparr>,
      state = EMPTY, db = \<lparr>records = [], conn_open = True\<rparr>,
      disk = (\<lambda>p. None)(home_dir \<mapsto> empty_dir\<lparr>db_file := Some []\<rparr>)\<rparr>"

definition sample_key :: bytes where
  "sample_key = Scrypt_derive toy_crypto (map of_nat sample_salt) (map of_nat (lit ''Str0ng!Pass''))"

text \<open>The vault that \<open>fresh_app\<close> becomes once the password \<open>Str0ng!Pass\<close> has been set.\<close>

definition vault_app :: "AppState \<Rightarrow> App" where
  "vault_app st =
     \<lparr>encoder = Some \<lparr>fernet = sample_key, password_hash = sample_key\<rparr>,
      user_input = [], user_input2 = [],
      config = \<lparr>storage_pth = home_dir, password_salt = sample_salt,
                stored_hash = Some sample_key\<rparr>,
      state = st, db = \<lparr>records = [], conn_open = True\<rparr>,
      disk = (\<lambda>p. None)(home_dir \<mapsto>
               \<lparr>config_file = Some (Cfg home_dir sample_salt),
                hash_file = Some (Raw sample_key), db_file = Some []\<rparr>)\<rparr>"

section \<open>Properties of the codec\<close>

lemma recompose3: "c div 4096 * 4096 + c div 64 mod 64 * 64 + c mod 64 = (c::nat)"
proof -
  have a: "c mod 4096 = 64 * (c div 64 mod 64) + c mod 64"
    using mod_mult2_eq [of c 64 64] by simp
  have "c div 4096 * 4096 + c div 64 mod 64 * 64 + c mod 64 = c div 4096 * 4096 + c mod 4096"
    by (simp add: a)
  then show ?thesis by simp
qed

lemma recompose4:
  "c div 262144 * 262144 + c div 4096 mod 64 * 4096 + c div 64 mod 64 * 64 + c mod 64 = (c::nat)"
proof -
  have a: "c mod 262144 = 4096 * (c div 4096 mod 64) + c mod 4096"
    using mod_mult2_eq [of c 4096 64] by simp
  have b: "c mod 4096 = 64 * (c div 64 mod 64) + c mod 64"
    using mod_mult2_eq [of c 64 64] by simp
  have "c div 262144 * 262144 + c div 4096 mod 64 * 4096 + c div 64 mod 64 * 64 + c mod 64
        = c div 262144 * 262144 + c mod 262144"
    by (simp add: a b)
  then show ?thesis by simp
qed

lemma decode_encode_codepoint:
  "encode_codepoint c = Some bs \<Longrightarrow> decode_octets (bs @ r) = map_option ((#) c) (decode_octets r)"
  unfolding encode_codepoint_def
  by (auto split: if_splits simp: continuation_def Let_def recompose3 recompose4)

lemma decode_encode_codepoints: "encode_codepoints cs = Some ns \<Longrightarrow> decode_octets ns = Some cs"
  by (induction cs arbitrary: ns) (auto split: option.splits simp: decode_encode_codepoint)

lemma encode_codepoint_octet: "encode_codepoint c = Some bs \<Longrightarrow> b \<in> set bs \<Longrightarrow> b < 256"
  unfolding encode_codepoint_def
  by (auto split: if_splits)

lemma encode_codepoints_octet: "encode_codepoints cs = Some ns \<Longrightarrow> b \<in> set ns \<Longrightarrow> b < 256"
  by (induction cs arbitrary: ns) (auto split: option.splits dest: encode_codepoint_octet)

lemma unat_of_nat_octets: "\<forall>b \<in> set ns. b < 256 \<Longrightarrow> map unat (map of_nat ns :: 8 word list) = ns"
  by (induction ns) (auto simp: unat_of_nat)

lemma bytes_decode_str_encode:
  assumes "str_encode s = Inr b"
  shows "bytes_decode b = Inr s"
proof -
  from assms obtain ns where ns: "encode_codepoints s = Some ns" and b: "b = map of_nat ns"
    unfolding str_encode_def by (auto split: option.splits)
  have "map unat b = ns"
    unfolding b using encode_codepoints_octet [OF ns] by (intro unat_of_nat_octets) blast
  then show ?thesis
    unfolding bytes_decode_def by (simp add: decode_encode_codepoints [OF ns])
qed

lemma encode_codepoint_scalar: "scalar_value c \<Longrightarrow> \<exists>bs. encode_codepoint c = Some bs"
  unfolding scalar_value_def encode_codepoint_def by auto

lemma str_encode_unicode_text: "unicode_text s \<Longrightarrow> \<exists>b. str_encode s = Inr b"
  unfolding unicode_text_def str_encode_def
proof (induction s)
  case Nil
  then show ?case by simp
next
  case (Cons c s)
  then obtain bs where "encode_codepoint c = Some bs"
    using encode_codepoint_scalar by auto
  with Cons show ?case by (auto split: option.splits)
qed

lemma ascii_decode: "\<forall>b \<in> set ns. b < 0x80 \<Longrightarrow> decode_octets ns = Some ns"
  by (induction ns) auto

lemma ascii_encode: "\<forall>b \<in> set ns. b < 0x80 \<Longrightarrow> encode_codepoints ns = Some ns"
  by (induction ns) (auto simp: encode_codepoint_def)

lemma ascii_token:
  assumes "\<forall>b \<in> set (t :: bytes). b < 0x80"
  shows "bytes_decode t = Inr (map unat t) \<and> str_encode (map unat t) = Inr t"
proof -
  have "\<forall>n \<in> set (map unat t). n < 0x80" using assms by (auto simp: word_less_nat_alt)
  then show ?thesis
    unfolding bytes_decode_def str_encode_def
    by (simp add: ascii_decode ascii_encode comp_def)
qed

lemma toy_unwrap_wrap: "toy_unwrap (concat (map toy_wrap_byte m)) = Some m"
  by (induction m) (auto simp: toy_wrap_byte_def)

lemma high_octet: "\<not> b < 0x80 \<Longrightarrow> b - 0x80 < (0x80 :: 8 word)"
proof -
  assume "\<not> b < 0x80"
  then have le: "(0x80 :: 8 word) \<le> b" by simp
  have "unat b < 256" using unsigned_less [of b] by simp
  then show ?thesis
    using le by (simp add: word_less_nat_alt word_le_nat_alt unat_sub)
qed

lemma toy_wrap_byte_ascii: "c \<in> set (toy_wrap_byte b) \<Longrightarrow> c < 0x80"
  by (auto simp: toy_wrap_byte_def high_octet split: if_splits)

lemma toy_wrap_ascii: "b \<in> set (concat (map toy_wrap_byte m)) \<Longrightarrow> b < 0x80"
  by (auto dest: toy_wrap_byte_ascii)

section \<open>password.py: the claims on \<open>Encoder\<close> and \<open>verify_password\<close>\<close>

text \<open>
  Claim C1. For every Unicode text \<open>x\<close> and every \<open>Encoder\<close> (in particular the one
  built from any password and salt), decoding the token that encoding \<open>x\<close> produced
  returns \<open>x\<close>, whatever the randomness and the time of the encryption. The two
  hypotheses on the library are the contract of Fernet: decryption under the same key
  inverts encryption, and a token is URL-safe base64, hence ASCII.
\<close>

theorem Encoder_round_trip:
  assumes inverse: "\<forall>key rnd data. Fernet_decrypt L key (Fernet_encrypt L key rnd data) = Some data"
      and ascii: "\<forall>key rnd data. \<forall>b \<in> set (Fernet_encrypt L key rnd data). b < 0x80"
      and unicode: "unicode_text x"
  shows "\<exists>token. Encoder_encode L self rnd x = Inr token \<and> Encoder_decode L self token = Inr x"
proof -
  from unicode obtain data_bytes where enc: "str_encode x = Inr data_bytes"
    using str_encode_unicode_text by blast
  define encrypted where "encrypted = Fernet_encrypt L (fernet self) rnd data_bytes"
  have "\<forall>b \<in> set encrypted. b < 0x80"
    unfolding encrypted_def using ascii by blast
  then have tok: "bytes_decode encrypted = Inr (map unat encrypted)"
    and reenc: "str_encode (map unat encrypted) = Inr encrypted"
    using ascii_token by blast+
  have "Encoder_encode L self rnd x = Inr (map unat encrypted)"
    unfolding Encoder_encode_def by (simp add: bind_def enc tok flip: encrypted_def)
  moreover have "Fernet_decrypt L (fernet self) encrypted = Some data_bytes"
    unfolding encrypted_def using inverse by blast
  then have "Encoder_decode L self (map unat encrypted) = Inr x"
    unfolding Encoder_decode_def
    by (simp add: bind_def reenc bytes_decode_str_encode [OF enc])
  ultimately show ?thesis by blast
qed

theorem Encoder_round_trip_witness:
  "unicode_text [0x68, 0xE9, 0x20AC]
   \<and> (\<exists>token. Encoder_encode toy_crypto \<lparr>fernet = sample_key, password_hash = sample_key\<rparr> ([], 0) [0x68, 0xE9, 0x20AC] = Inr token
        \<and> Encoder_decode toy_crypto \<lparr>fernet = sample_key, password_hash = sample_key\<rparr> token = Inr [0x68, 0xE9, 0x20AC])"
proof -
  have inverse: "\<forall>key rnd data. Fernet_decrypt toy_crypto key (Fernet_encrypt toy_crypto key rnd data) = Some data"
    by (simp add: toy_crypto_def toy_unwrap_wrap)
  have ascii: "\<forall>key rnd data. \<forall>b \<in> set (Fernet_encrypt toy_crypto key rnd data). b < 0x80"
    using toy_wrap_ascii by (simp add: toy_crypto_def)
  have unicode: "unicode_text [0x68, 0xE9, 0x20AC]"
    by (simp add: unicode_text_def scalar_value_def)
  show ?thesis
    using unicode Encoder_round_trip [OF inverse ascii unicode] by blast
qed

lemma verify_password_value:
  assumes "str_encode salt = Inr salt_bytes" and "str_encode password = Inr password_bytes"
  shows "verify_password L password salt key = Inr (Scrypt_derive L salt_bytes password_bytes = key)"
  using assms by (simp add: verify_password_def Scrypt_verify_def bind_def)

lemma derive_key_value:
  assumes "derive_key L password salt = Inr k"
  shows "\<exists>salt_bytes password_bytes. str_encode salt = Inr salt_bytes
           \<and> str_encode password = Inr password_bytes
           \<and> k = Scrypt_derive L salt_bytes password_bytes"
  using assms by (auto simp: derive_key_def bind_def split: sum.splits)






lemma str_encode_replicate_a: "str_encode (replicate n 0x61) = Inr (replicate n 0x61)"
proof -
  have "encode_codepoints (replicate n 0x61) = Some (replicate n 0x61)"
    by (induction n) (simp_all add: encode_codepoint_def)
  then show ?thesis by (simp add: str_encode_def)
qed

lemma octets_of_length_finite: "finite {bs :: bytes. length bs = n}"
  using finite_lists_length_eq [of "UNIV :: 8 word set" n] by simp

lemma Scrypt_collision:
  assumes len: "\<forall>salt key_material. length (Scrypt_derive L salt key_material) = 32"
  shows "\<exists>n m. n \<noteq> m \<and> Scrypt_derive L [] (replicate n 0x61) = Scrypt_derive L [] (replicate m 0x61)"
proof (rule ccontr)
  assume "\<not> ?thesis"
  then have "inj (\<lambda>n::nat. Scrypt_derive L [] (replicate n 0x61))"
    by (auto simp: inj_on_def)
  moreover have "range (\<lambda>n::nat. Scrypt_derive L [] (replicate n 0x61)) \<subseteq> {bs. length bs = 32}"
    using len by auto
  then have "finite (range (\<lambda>n::nat. Scrypt_derive L [] (replicate n 0x61)))"
    using octets_of_length_finite finite_subset by blast
  ultimately have "finite (UNIV :: nat set)"
    by (rule finite_imageD [rotated])
  then show False by simp
qed

text \<open>
  Why the verdict on a second password is stated through the derived keys: whatever the
  key derivation function, as long as its keys have 32 bytes, there are two distinct
  passwords, both plain ASCII text, of which the one verifies against the key of the other.
\<close>

lemma verify_password_collision:
  assumes "\<forall>salt key_material. length (Scrypt_derive L salt key_material) = 32"
  shows "\<exists>p p2 k2. unicode_text p \<and> unicode_text p2 \<and> p \<noteq> p2
           \<and> derive_key L p2 [] = Inr k2 \<and> verify_password L p [] k2 = Inr True"
proof -
  from Scrypt_collision [OF assms] obtain n m where nm: "n \<noteq> m"
    and eq: "Scrypt_derive L [] (replicate n 0x61) = Scrypt_derive L [] (replicate m 0x61)"
    by blast
  have empty: "str_encode [] = Inr []" by (simp add: str_encode_def)
  have ne: "replicate n (0x61::nat) \<noteq> replicate m 0x61"
    using nm by (metis length_replicate)
  have d: "derive_key L (replicate m 0x61) [] = Inr (Scrypt_derive L [] (replicate m 0x61))"
    by (simp add: derive_key_def bind_def empty str_encode_replicate_a)
  have v: "verify_password L (replicate n 0x61) [] (Scrypt_derive L [] (replicate m 0x61)) = Inr True"
    using verify_password_value [OF empty str_encode_replicate_a, of L n] eq by simp
  have "unicode_text (replicate k 0x61)" for k
    by (simp add: unicode_text_def scalar_value_def list_all_iff)
  with ne d v show ?thesis by blast
qed




section \<open>main.py: the transitions of one frame\<close>















section \<open>main.py: what the windows do on a click\<close>

lemma VALID_CHARS_ascii: "c \<in> VALID_CHARS \<Longrightarrow> c < 0x80"
  unfolding VALID_CHARS_def ascii_letters_def digits_def punctuation_def lit_def
  by auto

lemma password_str_encode:
  assumes "password_meets_requirements p"
  shows "str_encode p = Inr (map of_nat p)"
proof -
  have "\<forall>c \<in> set p. c < 0x80"
    using assms VALID_CHARS_ascii
    by (auto simp: password_meets_requirements_def split: if_splits)
  then show ?thesis by (simp add: str_encode_def ascii_encode)
qed

lemma frame_commands_no_menu_action:
  assumes "no_menu_action ui"
  shows "frame_commands L ui a = state_window L ui a"
  using assms
  by (auto simp: no_menu_action_def frame_commands_def main_menu_bar_def bind_def Let_def)

lemma empty_window_accept:
  assumes "button ui" and "input_text ui \<noteq> []"
    and "password_meets_requirements (input_text ui)"
    and "str_encode (password_salt (config a)) = Inr salt_bytes"
    and "disk a (storage_pth (config a)) = Some d"
  shows "empty_window L ui a =
           Inr (a\<lparr>user_input := [],
                  encoder := Some \<lparr>fernet = Scrypt_derive L salt_bytes (map of_nat (input_text ui)),
                                   password_hash = Scrypt_derive L salt_bytes (map of_nat (input_text ui))\<rparr>,
                  config := (config a)\<lparr>stored_hash :=
                              Some (Scrypt_derive L salt_bytes (map of_nat (input_text ui)))\<rparr>,
                  disk := (disk a)(storage_pth (config a) \<mapsto>
                     d\<lparr>config_file := Some (Cfg (storage_pth (config a)) (password_salt (config a))),
                       hash_file := Some (Raw (Scrypt_derive L salt_bytes (map of_nat (input_text ui))))\<rparr>),
                  state := LOGGEDOFF\<rparr>)"
  using assms password_str_encode [OF assms(3)]
  by (simp add: empty_window_def Let_def bind_def Encoder_init_def derive_key_def
        set_password_hash_def dump_def)

lemma empty_window_reject:
  assumes "button ui" and "input_text ui \<noteq> []"
    and "\<not> password_meets_requirements (input_text ui)"
  shows "empty_window L ui a = Inr (a\<lparr>user_input := [], state := INVALIDNEWPASSWORD\<rparr>)"
  using assms by (simp add: empty_window_def Let_def bind_def)

lemma verify_password_encodes:
  assumes "verify_password L p s key = Inr ok"
  shows "\<exists>sb pb. str_encode s = Inr sb \<and> str_encode p = Inr pb
           \<and> ok = (Scrypt_derive L sb pb = key)"
  using assms
  by (auto simp: verify_password_def Scrypt_verify_def bind_def split: sum.splits if_splits)

lemma loggedoff_window_submit:
  assumes "button ui" and "input_text ui \<noteq> []"
    and "get_password_hash (config a) = Inr key"
    and "verify_password L (input_text ui) (password_salt (config a)) key = Inr ok"
  shows "\<exists>enc. Encoder_init L (input_text ui) (password_salt (config a)) = Inr enc
           \<and> loggedoff_window L ui a =
               Inr (if ok then a\<lparr>user_input := [], encoder := Some enc, state := LOGGEDON\<rparr>
                    else a\<lparr>user_input := [], state := INVALIDPASSWORD\<rparr>)"
proof -
  from verify_password_encodes [OF assms(4)] obtain sb pb
    where "str_encode (password_salt (config a)) = Inr sb" "str_encode (input_text ui) = Inr pb"
    by blast
  then have "Encoder_init L (input_text ui) (password_salt (config a))
               = Inr \<lparr>fernet = Scrypt_derive L sb pb, password_hash = Scrypt_derive L sb pb\<rparr>"
    by (simp add: Encoder_init_def derive_key_def bind_def)
  then show ?thesis
    using assms by (simp add: loggedoff_window_def Let_def bind_def)
qed

lemma addrecord_window_confirm:
  assumes "button ui" and "input_text ui \<noteq> []" and "input_text_multiline ui \<noteq> []"
    and "encoder a = Some enc"
    and "Encoder_encode L enc (rnd1 ui) (input_text ui) = Inr logged_title"
    and "Encoder_encode L enc (rnd2 ui) (input_text_multiline ui) = Inr logged_body"
  shows "addrecord_window L ui a = Inr (a\<lparr>user_input := [], user_input2 := [], state := LOGGEDON\<rparr>)"
  using assms by (simp add: addrecord_window_def Let_def bind_def)

section \<open>A run of the application on a fresh home directory\<close>

lemma toy_key: "sample_key = map of_nat (lit ''Str0ng!Passq1w2e3r4t5y6u7i8o9p0a'')"
  by code_simp

lemma sample_salt_encode: "str_encode sample_salt = Inr (map of_nat sample_salt)"
  by code_simp

lemma strong_password: "password_meets_requirements (lit ''Str0ng!Pass'')"
  by code_simp

lemma short_password: "\<not> password_meets_requirements (lit ''short'')"
  by code_simp

lemma App_init_fresh: "App_init (\<lambda>p. None) None home_dir sample_salt = Inr fresh_app"
  by (simp add: App_init_def bind_def CONFIGFILE_exists_def empty_dir_def model_post_init_def
        Database_init_def fresh_app_def)

lemma type_and_click_simps:
  "button (type_and_click s)" "input_text (type_and_click s) = s" "no_menu_action (type_and_click s)"
  "\<not> add_btn (type_and_click s)" "\<not> find_btn (type_and_click s)"
  by (simp_all add: type_and_click_def no_input_def no_menu_action_def)

lemma set_password_fresh:
  "frame_commands toy_crypto (type_and_click (lit ''Str0ng!Pass'')) fresh_app = Inr (vault_app LOGGEDOFF)"
proof -
  have ne: "lit ''Str0ng!Pass'' \<noteq> []" by (simp add: lit_def)
  have "state_window toy_crypto (type_and_click (lit ''Str0ng!Pass'')) fresh_app
          = empty_window toy_crypto (type_and_click (lit ''Str0ng!Pass'')) fresh_app"
    by (simp add: state_window_def fresh_app_def)
  also have "\<dots> = Inr (vault_app LOGGEDOFF)"
    using empty_window_accept [of "type_and_click (lit ''Str0ng!Pass'')" fresh_app
        "map of_nat sample_salt" "empty_dir\<lparr>db_file := Some []\<rparr>" toy_crypto]
    by (simp add: type_and_click_simps ne strong_password sample_salt_encode
          fresh_app_def vault_app_def sample_key_def empty_dir_def)
  finally show ?thesis
    by (simp add: frame_commands_no_menu_action type_and_click_simps)
qed


lemma vault_password_hash: "get_password_hash (config (vault_app st)) = Inr sample_key"
  by (simp add: get_password_hash_def vault_app_def toy_key lit_def)

lemma verify_strong:
  "verify_password toy_crypto (lit ''Str0ng!Pass'') sample_salt sample_key = Inr True"
  using verify_password_value [OF sample_salt_encode password_str_encode [OF strong_password], of toy_crypto sample_key]
  by (simp add: sample_key_def)

lemma login_vault:
  "frame_commands toy_crypto (type_and_click (lit ''Str0ng!Pass'')) (vault_app LOGGEDOFF)
     = Inr (vault_app LOGGEDON)"
proof -
  have ne: "lit ''Str0ng!Pass'' \<noteq> []" by (simp add: lit_def)
  have salt: "password_salt (config (vault_app LOGGEDOFF)) = sample_salt"
    by (simp add: vault_app_def)
  have sw: "state_window toy_crypto (type_and_click (lit ''Str0ng!Pass'')) (vault_app LOGGEDOFF)
          = loggedoff_window toy_crypto (type_and_click (lit ''Str0ng!Pass'')) (vault_app LOGGEDOFF)"
    by (simp add: state_window_def vault_app_def)
  have enc: "Encoder_init toy_crypto (lit ''Str0ng!Pass'') sample_salt
                   = Inr \<lparr>fernet = sample_key, password_hash = sample_key\<rparr>"
    by (simp add: Encoder_init_def derive_key_def bind_def sample_salt_encode
          password_str_encode [OF strong_password] sample_key_def)
  note sw
  moreover have "loggedoff_window toy_crypto (type_and_click (lit ''Str0ng!Pass'')) (vault_app LOGGEDOFF)
      = Inr ((vault_app LOGGEDOFF)\<lparr>user_input := [],
               encoder := Some \<lparr>fernet = sample_key, password_hash = sample_key\<rparr>,
               state := LOGGEDON\<rparr>)"
    using loggedoff_window_submit [of "type_and_click (lit ''Str0ng!Pass'')" "vault_app LOGGEDOFF"
        sample_key toy_crypto True] enc
    by (simp add: type_and_click_simps ne vault_password_hash salt verify_strong)
  moreover have "(vault_app LOGGEDOFF)\<lparr>user_input := [],
               encoder := Some \<lparr>fernet = sample_key, password_hash = sample_key\<rparr>,
               state := LOGGEDON\<rparr> = vault_app LOGGEDON"
    by (simp add: vault_app_def)
  ultimately show ?thesis
    by (simp add: frame_commands_no_menu_action type_and_click_simps)
qed

lemma click_add_note:
  "frame_commands toy_crypto (no_input\<lparr>add_btn := True\<rparr>) (vault_app LOGGEDON) = Inr (vault_app ADDRECORD)"
  by (simp add: frame_commands_def main_menu_bar_def bind_def state_window_def
        main_view_selected_def state_ge_def state_le_def state_lt_def
        draw_main_options_menu_def addrecord_window_def Let_def no_input_def vault_app_def)

lemma click_change_password:
  "frame_commands toy_crypto
     (no_input\<lparr>main_menu_bar_opened := True, reset_menu_opened := True, clicked_change_pwd := True\<rparr>)
     (vault_app LOGGEDON) = Inr (vault_app CHANGEPASSWORD)"
  by (simp add: frame_commands_def main_menu_bar_def bind_def state_window_def
        reset_menu_allowed_def main_view_selected_def state_ge_def state_le_def state_lt_def
        Let_def no_input_def vault_app_def)

lemma reachable_fresh: "reachable toy_crypto fresh_app"
  using App_init_fresh by (rule reachable.start)

lemma reachable_vault_LOGGEDOFF: "reachable toy_crypto (vault_app LOGGEDOFF)"
  using reachable_fresh set_password_fresh by (rule reachable.frame)

lemma reachable_vault_LOGGEDON: "reachable toy_crypto (vault_app LOGGEDON)"
  using reachable_vault_LOGGEDOFF login_vault by (rule reachable.frame)

lemma reachable_vault_ADDRECORD: "reachable toy_crypto (vault_app ADDRECORD)"
  using reachable_vault_LOGGEDON click_add_note by (rule reachable.frame)

lemma reachable_vault_CHANGEPASSWORD: "reachable toy_crypto (vault_app CHANGEPASSWORD)"
  using reachable_vault_LOGGEDON click_change_password by (rule reachable.frame)

section \<open>main.py: the claims on the state machine\<close>



text \<open>
  Claim C4, as amended. The range test that selects the views of a logged-on user holds
  exactly for the six states from \<open>LOGGEDON\<close> to \<open>RECORDNOTFOUND\<close>. The test that opens
  the menu \<open>Reset..\<close> (change password, delete all data) has no upper bound: it holds for
  these six states and for \<open>CHANGEPASSWORD\<close> and \<open>CHANGEPASSWORDFAILED\<close>, and for no
  other state.
\<close>

theorem state_tests:
  "main_view_selected s = authenticated s
   \<and> reset_menu_allowed s = (authenticated s \<or> s = CHANGEPASSWORD \<or> s = CHANGEPASSWORDFAILED)"
  by (cases s)
     (simp_all add: main_view_selected_def reset_menu_allowed_def authenticated_def
        state_ge_def state_le_def state_lt_def)

text \<open>
  The claim as stated fails at the menu: in the reachable state \<open>CHANGEPASSWORD\<close>, which
  is not one of the six, the test of the menu \<open>Reset..\<close> holds, and clicking
  "Delete all data" there moves the application to \<open>CONFIRMHARDRESET\<close>.
\<close>

theorem reset_menu_counterexample:
  "reachable toy_crypto (vault_app CHANGEPASSWORD)
   \<and> \<not> authenticated CHANGEPASSWORD
   \<and> reset_menu_allowed CHANGEPASSWORD
   \<and> frame_commands toy_crypto
         (no_input\<lparr>main_menu_bar_opened := True, reset_menu_opened := True, clicked_reset := True\<rparr>)
         (vault_app CHANGEPASSWORD)
       = Inr (vault_app CONFIRMHARDRESET)"
  using reachable_vault_CHANGEPASSWORD
  by (simp add: authenticated_def reset_menu_allowed_def main_view_selected_def
        state_ge_def state_le_def state_lt_def
        frame_commands_def main_menu_bar_def state_window_def bind_def no_input_def vault_app_def)

text \<open>
  Claim C5, as amended. In state \<open>ADDRECORD\<close>, confirming a non-empty title and a
  non-empty body stores nothing: the database and the disk are left as they were (the
  call of \<open>add_record\<close> is commented out; title and body are encrypted only for a debug
  log message), both text fields are cleared, and the state returns to \<open>LOGGEDON\<close>.
\<close>

theorem addrecord_confirm:
  assumes "state a = ADDRECORD" and "no_menu_action ui" and "\<not> find_btn ui"
    and "button ui" and "input_text ui \<noteq> []" and "input_text_multiline ui \<noteq> []"
    and "encoder a = Some enc"
    and "Encoder_encode L enc (rnd1 ui) (input_text ui) = Inr logged_title"
    and "Encoder_encode L enc (rnd2 ui) (input_text_multiline ui) = Inr logged_body"
  shows "\<exists>a'. frame_commands L ui a = Inr a'
           \<and> a' = a\<lparr>user_input := [], user_input2 := [], state := LOGGEDON\<rparr>
           \<and> db a' = db a \<and> disk a' = disk a \<and> state a' = LOGGEDON"
proof -
  let ?b = "draw_main_options_menu ui a"
  have b: "?b = a"
    using assms(1,3) by (cases a) (simp add: draw_main_options_menu_def Let_def)
  have "main_view_selected (state a)"
    using assms(1) by (simp add: main_view_selected_def state_ge_def state_le_def state_lt_def)
  then have "state_window L ui a = addrecord_window L ui a"
    using assms(1) b by (simp add: state_window_def Let_def)
  then show ?thesis
    using addrecord_window_confirm [OF assms(4-9)] assms(2)
    by (simp add: frame_commands_no_menu_action)
qed

lemma toy_encode_t: "Encoder_encode toy_crypto \<lparr>fernet = sample_key, password_hash = sample_key\<rparr> ([], 0) (lit ''t'') = Inr (lit ''0t'')"
  by code_simp

lemma toy_encode_b: "Encoder_encode toy_crypto \<lparr>fernet = sample_key, password_hash = sample_key\<rparr> ([], 0) (lit ''b'') = Inr (lit ''0b'')"
  by code_simp

theorem addrecord_confirm_witness:
  "state (vault_app ADDRECORD) = ADDRECORD
   \<and> frame_commands toy_crypto
         (no_input\<lparr>input_text := lit ''t'', input_text_multiline := lit ''b'', button := True\<rparr>)
         (vault_app ADDRECORD)
       = Inr (vault_app LOGGEDON)"
proof -
  let ?ui = "no_input\<lparr>input_text := lit ''t'', input_text_multiline := lit ''b'', button := True\<rparr>"
  have ui: "no_menu_action ?ui" "\<not> find_btn ?ui" "button ?ui" "input_text ?ui \<noteq> []"
    "input_text_multiline ?ui \<noteq> []" "input_text ?ui = lit ''t''" "input_text_multiline ?ui = lit ''b''"
    "rnd1 ?ui = ([], 0)" "rnd2 ?ui = ([], 0)"
    by (simp_all add: no_input_def no_menu_action_def lit_def)
  have st: "state (vault_app ADDRECORD) = ADDRECORD"
    and en: "encoder (vault_app ADDRECORD) = Some \<lparr>fernet = sample_key, password_hash = sample_key\<rparr>"
    by (simp_all add: vault_app_def)
  have t: "Encoder_encode toy_crypto \<lparr>fernet = sample_key, password_hash = sample_key\<rparr> (rnd1 ?ui) (input_text ?ui) = Inr (lit ''0t'')"
    using toy_encode_t by (simp only: ui)
  have b: "Encoder_encode toy_crypto \<lparr>fernet = sample_key, password_hash = sample_key\<rparr> (rnd2 ?ui) (input_text_multiline ?ui) = Inr (lit ''0b'')"
    using toy_encode_b by (simp only: ui)
  have "(vault_app ADDRECORD)\<lparr>user_input := [], user_input2 := [], state := LOGGEDON\<rparr> = vault_app LOGGEDON"
    by (simp add: vault_app_def)
  then show ?thesis
    using st addrecord_confirm [OF st ui(1) ui(2) ui(3) ui(4) ui(5) en t b] by simp
qed

text \<open>
  The claim as stated fails: after the user has confirmed the title \<open>t\<close> and the body
  \<open>b\<close> in state \<open>ADDRECORD\<close>, the record store holds no record of that title.
\<close>

theorem addrecord_stores_nothing_counterexample:
  "reachable toy_crypto (vault_app ADDRECORD)
   \<and> frame_commands toy_crypto
         (no_input\<lparr>input_text := lit ''t'', input_text_multiline := lit ''b'', button := True\<rparr>)
         (vault_app ADDRECORD)
       = Inr (vault_app LOGGEDON)
   \<and> records (db (vault_app LOGGEDON)) = []
   \<and> fetch_record (db (vault_app LOGGEDON)) (lit ''t'') = Inr None"
proof -
  have "frame_commands toy_crypto
         (no_input\<lparr>input_text := lit ''t'', input_text_multiline := lit ''b'', button := True\<rparr>)
         (vault_app ADDRECORD)
       = Inr (vault_app LOGGEDON)"
    using toy_encode_t toy_encode_b
    by (simp add: frame_commands_def main_menu_bar_def bind_def state_window_def
          main_view_selected_def state_ge_def state_le_def state_lt_def
          draw_main_options_menu_def addrecord_window_def Let_def no_input_def vault_app_def lit_def)
  moreover have "str_encode (lit ''t'') = Inr (map of_nat (lit ''t''))"
    by code_simp
  ultimately show ?thesis
    using reachable_vault_ADDRECORD by (simp add: vault_app_def fetch_record_def bind_def)
qed

lemma empty_click_ignored:
  assumes "button ui \<longrightarrow> input_text ui = []"
  shows "empty_window L ui a = Inr (a\<lparr>user_input := input_text ui\<rparr>)"
    and "loggedoff_window L ui a = Inr (a\<lparr>user_input := input_text ui\<rparr>)"
  using assms by (auto simp: empty_window_def loggedoff_window_def Let_def)

lemma loggedoff_window_frame:
  assumes "loggedoff_window L ui a = Inr a'"
  shows "config a' = config a \<and> disk a' = disk a \<and> db a' = db a"
  using assms
  by (auto simp: loggedoff_window_def Let_def bind_def split: if_splits sum.splits)

text \<open>
  Claim C7, as amended. In state \<open>EMPTY\<close>, a click on "Confirm" with a password that
  meets the requirements derives the key from the password and the salt, stores it as the
  verifier in the config, writes \<open>config.json\<close> and the \<open>hash\<close> file, and moves to
  \<open>LOGGEDOFF\<close>; with a non-empty password that fails the requirements it moves to
  \<open>INVALIDNEWPASSWORD\<close> and leaves config and disk as they were; with an empty password
  field the click is ignored: the state stays \<open>EMPTY\<close> and nothing is set. The
  requirements are: between 8 and 32 characters, each of them an ASCII letter, a digit or a
  punctuation character.
\<close>

theorem empty_submit_password:
  assumes "state a = EMPTY" and "no_menu_action ui" and "button ui"
  shows "(password_meets_requirements (input_text ui)
            \<and> str_encode (password_salt (config a)) = Inr salt_bytes
            \<and> disk a (storage_pth (config a)) = Some d \<longrightarrow>
          (\<exists>key. derive_key L (input_text ui) (password_salt (config a)) = Inr key
             \<and> frame_commands L ui a =
                 Inr (a\<lparr>user_input := [],
                        encoder := Some \<lparr>fernet = key, password_hash = key\<rparr>,
                        config := (config a)\<lparr>stored_hash := Some key\<rparr>,
                        disk := (disk a)(storage_pth (config a) \<mapsto>
                           d\<lparr>config_file := Some (Cfg (storage_pth (config a)) (password_salt (config a))),
                             hash_file := Some (Raw key)\<rparr>),
                        state := LOGGEDOFF\<rparr>)))
       \<and> (input_text ui \<noteq> [] \<and> \<not> password_meets_requirements (input_text ui) \<longrightarrow>
            frame_commands L ui a = Inr (a\<lparr>user_input := [], state := INVALIDNEWPASSWORD\<rparr>))
       \<and> (input_text ui = [] \<longrightarrow> frame_commands L ui a = Inr (a\<lparr>user_input := []\<rparr>))
       \<and> password_meets_requirements (input_text ui)
            = (8 \<le> length (input_text ui) \<and> length (input_text ui) \<le> 32
               \<and> set (input_text ui) \<subseteq> set ascii_letters \<union> set digits \<union> set punctuation)"
proof -
  have w: "frame_commands L ui a = empty_window L ui a"
    using assms(1,2) by (simp add: frame_commands_no_menu_action state_window_def)
  have accept: "\<exists>key. derive_key L (input_text ui) (password_salt (config a)) = Inr key
             \<and> frame_commands L ui a =
                 Inr (a\<lparr>user_input := [],
                        encoder := Some \<lparr>fernet = key, password_hash = key\<rparr>,
                        config := (config a)\<lparr>stored_hash := Some key\<rparr>,
                        disk := (disk a)(storage_pth (config a) \<mapsto>
                           d\<lparr>config_file := Some (Cfg (storage_pth (config a)) (password_salt (config a))),
                             hash_file := Some (Raw key)\<rparr>),
                        state := LOGGEDOFF\<rparr>)"
    if ok: "password_meets_requirements (input_text ui)"
      and salt: "str_encode (password_salt (config a)) = Inr salt_bytes"
      and dir: "disk a (storage_pth (config a)) = Some d"
  proof -
    have ne: "input_text ui \<noteq> []"
      using ok by (auto simp: password_meets_requirements_def split: if_splits)
    have "derive_key L (input_text ui) (password_salt (config a))
            = Inr (Scrypt_derive L salt_bytes (map of_nat (input_text ui)))"
      by (simp add: derive_key_def bind_def salt password_str_encode [OF ok])
    then show ?thesis
      using empty_window_accept [OF assms(3) ne ok salt dir, of L] w by simp
  qed
  have reject: "frame_commands L ui a = Inr (a\<lparr>user_input := [], state := INVALIDNEWPASSWORD\<rparr>)"
    if "input_text ui \<noteq> []" and "\<not> password_meets_requirements (input_text ui)"
    using empty_window_reject [OF assms(3) that] w by simp
  have ignored: "frame_commands L ui a = Inr (a\<lparr>user_input := []\<rparr>)" if "input_text ui = []"
    using empty_click_ignored(1) [of ui L a] that w by simp
  have "password_meets_requirements (input_text ui)
            = (8 \<le> length (input_text ui) \<and> length (input_text ui) \<le> 32
               \<and> set (input_text ui) \<subseteq> set ascii_letters \<union> set digits \<union> set punctuation)"
    by (auto simp: password_meets_requirements_def VALID_CHARS_def)
  with accept reject ignored show ?thesis by blast
qed

theorem empty_submit_password_witness:
  "state fresh_app = EMPTY
   \<and> password_meets_requirements (lit ''Str0ng!Pass'')
   \<and> frame_commands toy_crypto (type_and_click (lit ''Str0ng!Pass'')) fresh_app
       = Inr (vault_app LOGGEDOFF)
   \<and> stored_hash (config (vault_app LOGGEDOFF)) = Some sample_key
   \<and> \<not> password_meets_requirements (lit ''short'')
   \<and> frame_commands toy_crypto (type_and_click (lit ''short'')) fresh_app
       = Inr (fresh_app\<lparr>state := INVALIDNEWPASSWORD\<rparr>)
   \<and> frame_commands toy_crypto (type_and_click []) fresh_app = Inr fresh_app"
proof -
  have st: "state fresh_app = EMPTY" by (simp add: fresh_app_def)
  have ne: "input_text (type_and_click (lit ''short'')) \<noteq> []"
    by (simp add: type_and_click_simps lit_def)
  have dir: "disk fresh_app (storage_pth (config fresh_app)) = Some (empty_dir\<lparr>db_file := Some []\<rparr>)"
    and salt: "str_encode (password_salt (config fresh_app)) = Inr (map of_nat sample_salt)"
    by (simp_all add: fresh_app_def sample_salt_encode)
  have key: "derive_key toy_crypto (lit ''Str0ng!Pass'') sample_salt = Inr sample_key"
    by (simp add: derive_key_def bind_def sample_salt_encode
          password_str_encode [OF strong_password] sample_key_def)
  have eq: "fresh_app\<lparr>user_input := [],
                        encoder := Some \<lparr>fernet = sample_key, password_hash = sample_key\<rparr>,
                        config := (config fresh_app)\<lparr>stored_hash := Some sample_key\<rparr>,
                        disk := (disk fresh_app)(storage_pth (config fresh_app) \<mapsto>
                           empty_dir\<lparr>db_file := Some [],
                             config_file := Some (Cfg (storage_pth (config fresh_app)) (password_salt (config fresh_app))),
                             hash_file := Some (Raw sample_key)\<rparr>),
                        state := LOGGEDOFF\<rparr> = vault_app LOGGEDOFF"
    by (simp add: fresh_app_def vault_app_def empty_dir_def)
  have eq2: "fresh_app\<lparr>user_input := [], state := INVALIDNEWPASSWORD\<rparr>
               = fresh_app\<lparr>state := INVALIDNEWPASSWORD\<rparr>"
    "fresh_app\<lparr>user_input := []\<rparr> = fresh_app"
    by (simp_all add: fresh_app_def)
  have pw: "password_salt (config fresh_app) = sample_salt" by (simp add: fresh_app_def)
  note accepted = empty_submit_password [OF st type_and_click_simps(3) type_and_click_simps(1),
      of "lit ''Str0ng!Pass''" "map of_nat sample_salt" "empty_dir\<lparr>db_file := Some []\<rparr>" toy_crypto,
      THEN conjunct1, rule_format]
  note rejected = empty_submit_password [OF st type_and_click_simps(3) type_and_click_simps(1),
      of "lit ''short''" "map of_nat sample_salt" "empty_dir\<lparr>db_file := Some []\<rparr>" toy_crypto,
      THEN conjunct2, THEN conjunct1, rule_format]
  note ignored = empty_submit_password [OF st type_and_click_simps(3) type_and_click_simps(1),
      of "[]" "map of_nat sample_salt" "empty_dir\<lparr>db_file := Some []\<rparr>" toy_crypto,
      THEN conjunct2, THEN conjunct2, THEN conjunct1, rule_format]
  have sp: "password_meets_requirements (input_text (type_and_click (lit ''Str0ng!Pass'')))"
    and sh: "\<not> password_meets_requirements (input_text (type_and_click (lit ''short'')))"
    using strong_password short_password by (simp_all add: type_and_click_simps)
  from accepted sp salt dir obtain k
    where "derive_key toy_crypto (input_text (type_and_click (lit ''Str0ng!Pass'')))
             (password_salt (config fresh_app)) = Inr k"
      and "frame_commands toy_crypto (type_and_click (lit ''Str0ng!Pass'')) fresh_app =
             Inr (fresh_app\<lparr>user_input := [],
                        encoder := Some \<lparr>fernet = k, password_hash = k\<rparr>,
                        config := (config fresh_app)\<lparr>stored_hash := Some k\<rparr>,
                        disk := (disk fresh_app)(storage_pth (config fresh_app) \<mapsto>
                           empty_dir\<lparr>db_file := Some [],
                             config_file := Some (Cfg (storage_pth (config fresh_app)) (password_salt (config fresh_app))),
                             hash_file := Some (Raw k)\<rparr>),
                        state := LOGGEDOFF\<rparr>)"
    by blast
  then have "frame_commands toy_crypto (type_and_click (lit ''Str0ng!Pass'')) fresh_app
       = Inr (vault_app LOGGEDOFF)"
    using key eq by (simp add: type_and_click_simps pw)
  moreover from rejected ne sh
  have "frame_commands toy_crypto (type_and_click (lit ''short'')) fresh_app
       = Inr (fresh_app\<lparr>state := INVALIDNEWPASSWORD\<rparr>)"
    using eq2(1) by simp
  moreover from ignored
  have "frame_commands toy_crypto (type_and_click []) fresh_app = Inr fresh_app"
    using eq2(2) by (simp add: type_and_click_simps)
  ultimately show ?thesis
    using st strong_password short_password by (simp add: vault_app_def)
qed

text \<open>
  The claim as stated fails on the empty password: it fails the requirements, yet a click
  on "Confirm" with the field empty leaves the application in \<open>EMPTY\<close>, not in
  \<open>INVALIDNEWPASSWORD\<close>.
\<close>

theorem empty_password_counterexample:
  "\<not> password_meets_requirements []
   \<and> button (type_and_click []) \<and> input_text (type_and_click []) = []
   \<and> reachable toy_crypto fresh_app \<and> state fresh_app = EMPTY
   \<and> frame_commands toy_crypto (type_and_click []) fresh_app = Inr fresh_app"
proof -
  have "frame_commands toy_crypto (type_and_click []) fresh_app
          = Inr (fresh_app\<lparr>user_input := []\<rparr>)"
    using empty_click_ignored(1) [of "type_and_click []" toy_crypto fresh_app]
    by (simp add: frame_commands_no_menu_action type_and_click_simps state_window_def fresh_app_def)
  moreover have "fresh_app\<lparr>user_input := []\<rparr> = fresh_app"
    by (simp add: fresh_app_def)
  ultimately show ?thesis
    using reachable_fresh
    by (simp add: password_meets_requirements_def type_and_click_simps fresh_app_def)
qed

text \<open>
  Claim C8, as amended. In state \<open>LOGGEDOFF\<close> with a verifier stored, a click on
  "Log in" with a non-empty password for which \<open>verify_password\<close> succeeds against the
  stored verifier constructs the \<open>Encoder\<close> and moves to \<open>LOGGEDON\<close>; with a non-empty
  password for which it fails it moves to \<open>INVALIDPASSWORD\<close>; with an empty password
  field the click is ignored and the state stays \<open>LOGGEDOFF\<close>. Whatever the frame returns,
  the config, the disk and the record storage are unchanged.
\<close>

theorem loggedoff_submit_password:
  assumes "state a = LOGGEDOFF" and "no_menu_action ui" and "button ui"
  shows "(input_text ui \<noteq> [] \<and> get_password_hash (config a) = Inr key
            \<and> verify_password L (input_text ui) (password_salt (config a)) key = Inr True \<longrightarrow>
          (\<exists>enc. Encoder_init L (input_text ui) (password_salt (config a)) = Inr enc
             \<and> frame_commands L ui a
                 = Inr (a\<lparr>user_input := [], encoder := Some enc, state := LOGGEDON\<rparr>)))
       \<and> (input_text ui \<noteq> [] \<and> get_password_hash (config a) = Inr key
            \<and> verify_password L (input_text ui) (password_salt (config a)) key = Inr False \<longrightarrow>
          frame_commands L ui a = Inr (a\<lparr>user_input := [], state := INVALIDPASSWORD\<rparr>))
       \<and> (input_text ui = [] \<longrightarrow> frame_commands L ui a = Inr (a\<lparr>user_input := []\<rparr>))
       \<and> (\<forall>a'. frame_commands L ui a = Inr a' \<longrightarrow>
             config a' = config a \<and> disk a' = disk a \<and> db a' = db a)"
proof -
  have w: "frame_commands L ui a = loggedoff_window L ui a"
    using assms(1,2) by (simp add: frame_commands_no_menu_action state_window_def)
  have yes: "\<exists>enc. Encoder_init L (input_text ui) (password_salt (config a)) = Inr enc
           \<and> frame_commands L ui a
               = Inr (a\<lparr>user_input := [], encoder := Some enc, state := LOGGEDON\<rparr>)"
    if "input_text ui \<noteq> []" and "get_password_hash (config a) = Inr key"
      and "verify_password L (input_text ui) (password_salt (config a)) key = Inr True"
    using loggedoff_window_submit [OF assms(3) that] w by simp
  have no: "frame_commands L ui a = Inr (a\<lparr>user_input := [], state := INVALIDPASSWORD\<rparr>)"
    if "input_text ui \<noteq> []" and "get_password_hash (config a) = Inr key"
      and "verify_password L (input_text ui) (password_salt (config a)) key = Inr False"
    using loggedoff_window_submit [OF assms(3) that] w by auto
  have ignored: "frame_commands L ui a = Inr (a\<lparr>user_input := []\<rparr>)" if "input_text ui = []"
    using empty_click_ignored(2) [of ui L a] that w by simp
  have frame: "config a' = config a \<and> disk a' = disk a \<and> db a' = db a"
    if "frame_commands L ui a = Inr a'" for a'
    using that w loggedoff_window_frame by simp
  from yes no ignored frame show ?thesis by blast
qed

theorem loggedoff_submit_password_witness:
  "state (vault_app LOGGEDOFF) = LOGGEDOFF
   \<and> verify_password toy_crypto (lit ''Str0ng!Pass'') sample_salt sample_key = Inr True
   \<and> frame_commands toy_crypto (type_and_click (lit ''Str0ng!Pass'')) (vault_app LOGGEDOFF)
       = Inr (vault_app LOGGEDON)
   \<and> verify_password toy_crypto (lit ''Wr0ng!Pass'') sample_salt sample_key = Inr False
   \<and> frame_commands toy_crypto (type_and_click (lit ''Wr0ng!Pass'')) (vault_app LOGGEDOFF)
       = Inr (vault_app INVALIDPASSWORD)
   \<and> frame_commands toy_crypto (type_and_click []) (vault_app LOGGEDOFF)
       = Inr (vault_app LOGGEDOFF)"
proof -
  have st: "state (vault_app LOGGEDOFF) = LOGGEDOFF" by (simp add: vault_app_def)
  have ne: "input_text (type_and_click (lit ''Str0ng!Pass'')) \<noteq> []"
    "input_text (type_and_click (lit ''Wr0ng!Pass'')) \<noteq> []"
    by (simp_all add: type_and_click_simps lit_def)
  have salt: "password_salt (config (vault_app LOGGEDOFF)) = sample_salt"
    by (simp add: vault_app_def)
  have wrong: "verify_password toy_crypto (lit ''Wr0ng!Pass'') sample_salt sample_key = Inr False"
    by code_simp
  have v1: "verify_password toy_crypto (input_text (type_and_click (lit ''Str0ng!Pass'')))
              (password_salt (config (vault_app LOGGEDOFF))) sample_key = Inr True"
    using verify_strong by (simp add: type_and_click_simps salt)
  have v2: "verify_password toy_crypto (input_text (type_and_click (lit ''Wr0ng!Pass'')))
              (password_salt (config (vault_app LOGGEDOFF))) sample_key = Inr False"
    using wrong by (simp add: type_and_click_simps salt)
  have enc: "Encoder_init toy_crypto (lit ''Str0ng!Pass'') sample_salt
                   = Inr \<lparr>fernet = sample_key, password_hash = sample_key\<rparr>"
    by (simp add: Encoder_init_def derive_key_def bind_def sample_salt_encode
          password_str_encode [OF strong_password] sample_key_def)
  have eq: "(vault_app LOGGEDOFF)\<lparr>user_input := [],
               encoder := Some \<lparr>fernet = sample_key, password_hash = sample_key\<rparr>,
               state := LOGGEDON\<rparr> = vault_app LOGGEDON"
    "(vault_app LOGGEDOFF)\<lparr>user_input := [], state := INVALIDPASSWORD\<rparr> = vault_app INVALIDPASSWORD"
    "(vault_app LOGGEDOFF)\<lparr>user_input := []\<rparr> = vault_app LOGGEDOFF"
    by (simp_all add: vault_app_def)
  note accepted = loggedoff_submit_password [OF st type_and_click_simps(3) type_and_click_simps(1),
      of "lit ''Str0ng!Pass''" sample_key toy_crypto, THEN conjunct1, rule_format]
  note rejected = loggedoff_submit_password [OF st type_and_click_simps(3) type_and_click_simps(1),
      of "lit ''Wr0ng!Pass''" sample_key toy_crypto, THEN conjunct2, THEN conjunct1, rule_format]
  note ignored = loggedoff_submit_password [OF st type_and_click_simps(3) type_and_click_simps(1),
      of "[]" sample_key toy_crypto, THEN conjunct2, THEN conjunct2, THEN conjunct1, rule_format]
  from accepted ne(1) vault_password_hash v1 obtain e
    where "Encoder_init toy_crypto (input_text (type_and_click (lit ''Str0ng!Pass'')))
             (password_salt (config (vault_app LOGGEDOFF))) = Inr e"
      and "frame_commands toy_crypto (type_and_click (lit ''Str0ng!Pass'')) (vault_app LOGGEDOFF)
             = Inr ((vault_app LOGGEDOFF)\<lparr>user_input := [], encoder := Some e, state := LOGGEDON\<rparr>)"
    by blast
  then have "frame_commands toy_crypto (type_and_click (lit ''Str0ng!Pass'')) (vault_app LOGGEDOFF)
       = Inr (vault_app LOGGEDON)"
    using enc eq(1) by (simp add: type_and_click_simps salt)
  moreover from rejected ne(2) vault_password_hash v2
  have "frame_commands toy_crypto (type_and_click (lit ''Wr0ng!Pass'')) (vault_app LOGGEDOFF)
       = Inr (vault_app INVALIDPASSWORD)"
    using eq(2) by simp
  moreover from ignored
  have "frame_commands toy_crypto (type_and_click []) (vault_app LOGGEDOFF)
       = Inr (vault_app LOGGEDOFF)"
    using eq(3) by (simp add: type_and_click_simps)
  ultimately show ?thesis
    using st verify_strong wrong by simp
qed

text \<open>
  The claim as stated fails on the empty password: it is not the password of the vault
  (verification against the stored verifier returns false), yet a click on "Log in" with
  the field empty leaves the application in \<open>LOGGEDOFF\<close>, not in \<open>INVALIDPASSWORD\<close>.
\<close>

theorem empty_login_counterexample:
  "verify_password toy_crypto [] sample_salt sample_key = Inr False
   \<and> button (type_and_click []) \<and> input_text (type_and_click []) = []
   \<and> reachable toy_crypto (vault_app LOGGEDOFF) \<and> state (vault_app LOGGEDOFF) = LOGGEDOFF
   \<and> frame_commands toy_crypto (type_and_click []) (vault_app LOGGEDOFF)
       = Inr (vault_app LOGGEDOFF)"
proof -
  have v: "verify_password toy_crypto [] sample_salt sample_key = Inr False"
    by code_simp
  have "frame_commands toy_crypto (type_and_click []) (vault_app LOGGEDOFF)
          = Inr ((vault_app LOGGEDOFF)\<lparr>user_input := []\<rparr>)"
    using empty_click_ignored(2) [of "type_and_click []" toy_crypto "vault_app LOGGEDOFF"]
    by (simp add: frame_commands_no_menu_action type_and_click_simps state_window_def vault_app_def)
  moreover have "(vault_app LOGGEDOFF)\<lparr>user_input := []\<rparr> = vault_app LOGGEDOFF"
    by (simp add: vault_app_def)
  ultimately show ?thesis
    using v reachable_vault_LOGGEDOFF by (simp add: type_and_click_simps vault_app_def)
qed

section \<open>database.py: the claim on the record store\<close>
















section \<open>config.py: the claim on loading a vault\<close>

lemma loggedoff_no_verifier_exits:
  assumes "state a = LOGGEDOFF" and "stored_hash (config a) = None"
    and "no_menu_action ui" and "button ui" and "input_text ui \<noteq> []"
  shows "frame_commands L ui a = Inl (SystemExit 1)"
  using assms
  by (simp add: frame_commands_no_menu_action state_window_def loggedoff_window_def
        Let_def bind_def get_password_hash_def)

text \<open>
  Claim C10, as amended. Loading never reports a config without its verifier or a verifier
  without its config. A directory with a \<open>config.json\<close> whose storage path has no
  \<open>hash\<close> file is loaded into state \<open>LOGGEDOFF\<close> with the verifier absent, and the
  process exits with status 1 only later, when a password is submitted there. A directory
  with a \<open>hash\<close> file and no \<open>config.json\<close> is taken for a new vault: it is loaded into
  state \<open>EMPTY\<close>, holding the bytes of the file as its verifier.
\<close>

theorem load_incomplete_vault:
  assumes "fs dir = Some d"
  shows "(config_file d = Some (Cfg pth salt)
            \<and> (case fs pth of None \<Rightarrow> None | Some d' \<Rightarrow> hash_file d') = None \<longrightarrow>
          (\<exists>a. App_init fs (Some dir) default_dir new_salt = Inr a
             \<and> state a = LOGGEDOFF \<and> stored_hash (config a) = None
             \<and> (\<forall>L ui. no_menu_action ui \<and> button ui \<and> input_text ui \<noteq> [] \<longrightarrow>
                   frame_commands L ui a = Inl (SystemExit 1))))
       \<and> (config_file d = None \<and> hash_file d = Some (Raw h) \<longrightarrow>
          (\<exists>a. App_init fs (Some dir) default_dir new_salt = Inr a
             \<and> state a = EMPTY \<and> stored_hash (config a) = Some h))"
proof -
  have nohash: "\<exists>a. App_init fs (Some dir) default_dir new_salt = Inr a
             \<and> state a = LOGGEDOFF \<and> stored_hash (config a) = None
             \<and> (\<forall>L ui. no_menu_action ui \<and> button ui \<and> input_text ui \<noteq> [] \<longrightarrow>
                   frame_commands L ui a = Inl (SystemExit 1))"
    if c: "config_file d = Some (Cfg pth salt)"
      and h: "(case fs pth of None \<Rightarrow> None | Some d' \<Rightarrow> hash_file d') = None"
  proof -
    have "\<exists>a. App_init fs (Some dir) default_dir new_salt = Inr a
             \<and> state a = LOGGEDOFF \<and> stored_hash (config a) = None"
      using assms c h
      by (simp add: App_init_def bind_def CONFIGFILE_exists_def from_json_def
            model_post_init_def Database_init_def split: option.splits)
    then show ?thesis using loggedoff_no_verifier_exits by blast
  qed
  have noconfig: "\<exists>a. App_init fs (Some dir) default_dir new_salt = Inr a
             \<and> state a = EMPTY \<and> stored_hash (config a) = Some h"
    if "config_file d = None" and "hash_file d = Some (Raw h)"
    using assms that
    by (simp add: App_init_def bind_def CONFIGFILE_exists_def
          model_post_init_def Database_init_def split: option.splits)
  from nohash noconfig show ?thesis by blast
qed

theorem load_incomplete_vault_witness:
  "(\<exists>a. App_init ((\<lambda>p. None)(home_dir \<mapsto>
            \<lparr>config_file = Some (Cfg home_dir sample_salt), hash_file = None, db_file = None\<rparr>))
          (Some home_dir) home_dir [] = Inr a
      \<and> state a = LOGGEDOFF \<and> stored_hash (config a) = None
      \<and> frame_commands toy_crypto (type_and_click (lit ''Str0ng!Pass'')) a = Inl (SystemExit 1))
   \<and> (\<exists>a. App_init ((\<lambda>p. None)(home_dir \<mapsto>
            \<lparr>config_file = None, hash_file = Some (Raw sample_key), db_file = None\<rparr>))
          (Some home_dir) home_dir sample_salt = Inr a
      \<and> state a = EMPTY \<and> stored_hash (config a) = Some sample_key)"
proof -
  have ne: "input_text (type_and_click (lit ''Str0ng!Pass'')) \<noteq> []"
    by (simp add: type_and_click_simps lit_def)
  from load_incomplete_vault [where fs = "(\<lambda>p. None)(home_dir \<mapsto>
            \<lparr>config_file = Some (Cfg home_dir sample_salt), hash_file = None, db_file = None\<rparr>)"
          and dir = home_dir and pth = home_dir and salt = sample_salt
          and default_dir = home_dir and new_salt = "[]"]
  have a: "\<exists>a. App_init ((\<lambda>p. None)(home_dir \<mapsto>
            \<lparr>config_file = Some (Cfg home_dir sample_salt), hash_file = None, db_file = None\<rparr>))
          (Some home_dir) home_dir [] = Inr a
      \<and> state a = LOGGEDOFF \<and> stored_hash (config a) = None
      \<and> frame_commands toy_crypto (type_and_click (lit ''Str0ng!Pass'')) a = Inl (SystemExit 1)"
    using ne type_and_click_simps(1,3) by fastforce
  from load_incomplete_vault [where fs = "(\<lambda>p. None)(home_dir \<mapsto>
            \<lparr>config_file = None, hash_file = Some (Raw sample_key), db_file = None\<rparr>)"
          and dir = home_dir and h = sample_key
          and default_dir = home_dir and new_salt = sample_salt]
  have b: "\<exists>a. App_init ((\<lambda>p. None)(home_dir \<mapsto>
            \<lparr>config_file = None, hash_file = Some (Raw sample_key), db_file = None\<rparr>))
          (Some home_dir) home_dir sample_salt = Inr a
      \<and> state a = EMPTY \<and> stored_hash (config a) = Some sample_key"
    by simp
  from a b show ?thesis by blast
qed

text \<open>
  The claim as stated fails in both directions: neither load is reported as an error.
\<close>

theorem load_incomplete_vault_counterexample:
  "App_init ((\<lambda>p. None)(home_dir \<mapsto>
        \<lparr>config_file = Some (Cfg home_dir sample_salt), hash_file = None, db_file = None\<rparr>))
      (Some home_dir) home_dir []
     = Inr \<lparr>encoder = None, user_input = [], user_input2 = [],
            config = \<lparr>storage_pth = home_dir, password_salt = sample_salt, stored_hash = None\<rparr>,
            state = LOGGEDOFF, db = \<lparr>records = [], conn_open = True\<rparr>,
            disk = (\<lambda>p. None)(home_dir \<mapsto>
              \<lparr>config_file = Some (Cfg home_dir sample_salt), hash_file = None,
               db_file = Some []\<rparr>)\<rparr>
   \<and> App_init ((\<lambda>p. None)(home_dir \<mapsto>
        \<lparr>config_file = None, hash_file = Some (Raw sample_key), db_file = None\<rparr>))
      (Some home_dir) home_dir sample_salt
     = Inr \<lparr>encoder = None, user_input = [], user_input2 = [],
            config = \<lparr>storage_pth = home_dir, password_salt = sample_salt,
                      stored_hash = Some sample_key\<rparr>,
            state = EMPTY, db = \<lparr>records = [], conn_open = True\<rparr>,
            disk = (\<lambda>p. None)(home_dir \<mapsto>
              \<lparr>config_file = None, hash_file = Some (Raw sample_key),
               db_file = Some []\<rparr>)\<rparr>"
  by (simp add: App_init_def bind_def CONFIGFILE_exists_def from_json_def
        model_post_init_def Database_init_def)

end
